theory Spec2Isabelle
  imports Main "HOL-Library.Sublist"
begin

section \<open>Clinical notes tools of m4 (\<^verbatim>\<open>src/m4/core/tools/notes.py\<close>)\<close>

text \<open>
  The three tools \<^verbatim>\<open>search_notes\<close>, \<^verbatim>\<open>get_note\<close> and \<^verbatim>\<open>list_patient_notes\<close> are
  embedded as functions of the backend adapter, the dataset and the input object. Each
  returns the \<^verbatim>\<open>ToolOutput\<close> together with the list of queries that were handed to
  \<^verbatim>\<open>backend.execute_query\<close>, in the order of the calls.
\<close>

subsection \<open>Python strings\<close>

text \<open>
  A Python \<^verbatim>\<open>str\<close> is the list of its code points, and a \<open>char\<close> is a code point below
  256 (ASCII and the Latin-1 supplement); strings with other code points are outside the
  type. On these code points \<^verbatim>\<open>str.lower\<close> maps \<^verbatim>\<open>A\<close> to \<^verbatim>\<open>Z\<close> (65 to 90) and the
  capital letters 192 to 222, the multiplication sign 215 apart, to the code point 32
  above, and leaves every other code point alone; it keeps the length of the string.
  \<^verbatim>\<open>str.upper\<close> is only ever applied to the two table names, which are ASCII.
\<close>

definition lower_char :: "char \<Rightarrow> char" where
  "lower_char c =
     (let n = (of_char c :: nat)
      in if (65 \<le> n \<and> n \<le> 90) \<or> (192 \<le> n \<and> n \<le> 222 \<and> n \<noteq> 215)
         then char_of (n + 32) else c)"

definition upper_char :: "char \<Rightarrow> char" where
  "upper_char c =
     (let n = (of_char c :: nat) in if 97 \<le> n \<and> n \<le> 122 then char_of (n - 32) else c)"

definition lower :: "string \<Rightarrow> string" where
  "lower s = map lower_char s"

definition upper :: "string \<Rightarrow> string" where
  "upper s = map upper_char s"

abbreviation NL :: string where
  "NL \<equiv> [CHR 0x0A]"

abbreviation QUOTE :: char where
  "QUOTE \<equiv> CHR 0x27"

text \<open>\<^verbatim>\<open>s.find(sub)\<close>: the least offset at which \<open>sub\<close> starts in \<open>s\<close>, if any.\<close>

fun str_find :: "string \<Rightarrow> string \<Rightarrow> nat option" where
  "str_find sub [] = (if sub = [] then Some 0 else None)"
| "str_find sub (c # cs) =
     (if prefix sub (c # cs) then Some 0 else map_option Suc (str_find sub cs))"

text \<open>\<^verbatim>\<open>sub in s\<close>.\<close>

definition str_contains :: "string \<Rightarrow> string \<Rightarrow> bool" where
  "str_contains sub s = (str_find sub s \<noteq> None)"

text \<open>\<^verbatim>\<open>s.replace("'", "''")\<close>.\<close>

fun replace_quote :: "string \<Rightarrow> string" where
  "replace_quote [] = []"
| "replace_quote (c # cs) =
     (if c = QUOTE then QUOTE # QUOTE # replace_quote cs else c # replace_quote cs)"

text \<open>\<^verbatim>\<open>sep.join(xs)\<close>.\<close>

fun join :: "string \<Rightarrow> string list \<Rightarrow> string" where
  "join sep [] = []"
| "join sep [x] = x"
| "join sep (x # y # ys) = x @ sep @ join sep (y # ys)"

text \<open>\<^verbatim>\<open>s[:n]\<close>: a negative bound counts from the end.\<close>

definition slice_to :: "string \<Rightarrow> int \<Rightarrow> string" where
  "slice_to s n = (if 0 \<le> n then take (nat n) s else take (nat (int (length s) + n)) s)"

text \<open>\<^verbatim>\<open>str(i)\<close> of an integer, as an f-string prints it.\<close>

definition digit_char :: "nat \<Rightarrow> char" where
  "digit_char d = char_of (48 + d)"

fun str_nat :: "nat \<Rightarrow> string" where
  "str_nat n = (if n < 10 then [digit_char n] else str_nat (n div 10) @ [digit_char (n mod 10)])"

declare str_nat.simps [simp del]

definition str_int :: "int \<Rightarrow> string" where
  "str_int i = (if i < 0 then CHR ''-'' # str_nat (nat (- i)) else str_nat (nat i))"

subsection \<open>Datasets and the capability gate\<close>

text \<open>
  Modelled from the spec: the enumeration \<^verbatim>\<open>Modality\<close> of \<^verbatim>\<open>m4.core.datasets\<close> is not part of
  the sources at hand; the spec names the capabilities "notes" and "tabular", and the tools
  refer to \<^verbatim>\<open>Modality.NOTES\<close>.
\<close>

datatype Modality = NOTES | TABULAR

text \<open>The two attributes of \<^verbatim>\<open>DatasetDefinition\<close> that the tools read.\<close>

record DatasetDefinition =
  name :: string
  modalities :: "Modality set"

text \<open>The class attributes shared by the three tool classes.\<close>

record Tool =
  tool_name :: string
  required_modalities :: "Modality set"
  supported_datasets :: "string set option"

definition SearchNotesTool :: Tool where
  "SearchNotesTool =
     \<lparr>tool_name = ''search_notes'', required_modalities = {NOTES}, supported_datasets = None\<rparr>"

definition GetNoteTool :: Tool where
  "GetNoteTool =
     \<lparr>tool_name = ''get_note'', required_modalities = {NOTES}, supported_datasets = None\<rparr>"

definition ListPatientNotesTool :: Tool where
  "ListPatientNotesTool =
     \<lparr>tool_name = ''list_patient_notes'', required_modalities = {NOTES},
      supported_datasets = None\<rparr>"

text \<open>
  \<^verbatim>\<open>is_compatible\<close>, the same body in the three classes. The first test is a truth test of
  the attribute: \<^verbatim>\<open>None\<close> and the empty set both skip the allow-list.
\<close>

definition is_compatible :: "Tool \<Rightarrow> DatasetDefinition \<Rightarrow> bool" where
  "is_compatible tool dataset =
     (if (case supported_datasets tool of None \<Rightarrow> False | Some s \<Rightarrow> s \<noteq> {})
          \<and> name dataset \<notin> the (supported_datasets tool)
      then False
      else if \<not> required_modalities tool \<subseteq> modalities dataset then False
      else True)"

subsection \<open>Note type selectors\<close>

definition SearchNotesTool_get_tables_for_type :: "string \<Rightarrow> string list" where
  "SearchNotesTool_get_tables_for_type note_type =
     (let note_type = lower note_type in
      if note_type = ''discharge'' then [''discharge'']
      else if note_type = ''radiology'' then [''radiology'']
      else if note_type = ''all'' then [''discharge'', ''radiology'']
      else [])"

definition ListPatientNotesTool_get_tables_for_type :: "string \<Rightarrow> string list" where
  "ListPatientNotesTool_get_tables_for_type note_type =
     (let note_type = lower note_type in
      if note_type = ''discharge'' then [''discharge'']
      else if note_type = ''radiology'' then [''radiology'']
      else if note_type = ''all'' then [''discharge'', ''radiology'']
      else [])"

subsection \<open>The query backend\<close>

text \<open>
  The backend of \<^verbatim>\<open>m4.core.backends\<close> is a collaborator of the tools and a parameter here.
  \<^verbatim>\<open>execute_query\<close> either raises (the text of the exception is kept) or returns a result
  object, of which the tools read \<^verbatim>\<open>success\<close> and \<^verbatim>\<open>data\<close>.
\<close>

record QueryResult =
  success :: bool
  data :: "string option"

datatype outcome = Raises string | Returns QueryResult

text \<open>
  The query texts are f-string templates; a query is represented by the template it
  instantiates and the values interpolated into it.

  \<^item> \<open>SearchNotesSql table search_term half snippet_length like_term limit\<close> is
  \<^verbatim>\<open>SELECT note_id, subject_id,
    CASE WHEN POSITION(LOWER('{search_term}') IN LOWER(text)) > 0
         THEN SUBSTRING(text,
                GREATEST(1, POSITION(LOWER('{search_term}') IN LOWER(text)) - {half}),
                {snippet_length})
         ELSE LEFT(text, {snippet_length}) END as snippet,
    LENGTH(text) as note_length
  FROM {table} WHERE LOWER(text) LIKE '%{like_term}%' LIMIT {limit}\<close>
  \<^item> \<open>GetNoteSql table note_id\<close> is
  \<^verbatim>\<open>SELECT note_id, subject_id, text, LENGTH(text) as note_length
  FROM {table} WHERE note_id = '{note_id}' LIMIT 1\<close>
  \<^item> \<open>ListNotesSql table subject_id limit\<close> is
  \<^verbatim>\<open>SELECT note_id, subject_id, '{table}' as note_type, LENGTH(text) as note_length,
    LEFT(text, 100) as preview
  FROM {table} WHERE subject_id = {subject_id} LIMIT {limit}\<close>
\<close>

datatype sql =
    SearchNotesSql string string int int string int
  | GetNoteSql string string
  | ListNotesSql string int int

record Backend =
  get_backend_info :: "DatasetDefinition \<Rightarrow> string"
  execute_query :: "sql \<Rightarrow> DatasetDefinition \<Rightarrow> outcome"

record ToolOutput =
  result :: string

text \<open>The truth value of \<^verbatim>\<open>result.data\<close>: \<^verbatim>\<open>None\<close> and the empty string are false.\<close>

definition truthy :: "string option \<Rightarrow> bool" where
  "truthy d = (case d of None \<Rightarrow> False | Some s \<Rightarrow> s \<noteq> [])"

subsection \<open>\<^verbatim>\<open>search_notes\<close>\<close>

record SearchNotesInput =
  query :: string
  note_type :: string
  limit :: int
  snippet_length :: int

definition search_notes_sql :: "SearchNotesInput \<Rightarrow> string \<Rightarrow> string \<Rightarrow> sql" where
  "search_notes_sql params search_term table =
     SearchNotesSql table search_term (snippet_length params div 2) (snippet_length params)
       (lower search_term) (limit params)"

text \<open>The body of the \<^verbatim>\<open>try\<close> statement: what one table appends to \<^verbatim>\<open>results\<close>.\<close>

definition search_notes_table ::
  "Backend \<Rightarrow> DatasetDefinition \<Rightarrow> SearchNotesInput \<Rightarrow> string \<Rightarrow> string \<Rightarrow> string list" where
  "search_notes_table backend dataset params search_term table =
     (case execute_query backend (search_notes_sql params search_term table) dataset of
        Returns r \<Rightarrow>
          if success r \<and> truthy (data r)
          then [NL @ ''**'' @ upper table @ '':**'' @ NL @ the (data r)]
          else []
      | Raises e \<Rightarrow> [NL @ ''**'' @ upper table @ '':** Error - '' @ e])"

text \<open>The \<^verbatim>\<open>for\<close> loop, with \<^verbatim>\<open>results\<close> and the issued queries as its state.\<close>

fun search_notes_loop ::
  "Backend \<Rightarrow> DatasetDefinition \<Rightarrow> SearchNotesInput \<Rightarrow> string \<Rightarrow> string list \<Rightarrow>
   string list \<times> sql list \<Rightarrow> string list \<times> sql list" where
  "search_notes_loop backend dataset params search_term [] st = st"
| "search_notes_loop backend dataset params search_term (table # tables) (results, issued) =
     search_notes_loop backend dataset params search_term tables
       (results @ search_notes_table backend dataset params search_term table,
        issued @ [search_notes_sql params search_term table])"

definition invalid_note_type :: "string \<Rightarrow> string \<Rightarrow> string" where
  "invalid_note_type backend_info nt =
     backend_info @ NL @ ''**Error:** Invalid note_type '' @ [QUOTE] @ nt @ [QUOTE]
       @ ''. Use 'discharge', 'radiology', or 'all'.''"

definition no_matches_found :: "string \<Rightarrow> string \<Rightarrow> string list \<Rightarrow> string" where
  "no_matches_found backend_info q tables =
     backend_info @ NL @ ''**No matches found** for '' @ [QUOTE] @ q @ [QUOTE] @ '' in ''
       @ join '', '' tables @ ''.''"

definition search_output :: "string \<Rightarrow> SearchNotesInput \<Rightarrow> string list \<Rightarrow> string" where
  "search_output backend_info params results =
     backend_info @ NL
       @ ''**Search:** '' @ [QUOTE] @ query params @ [QUOTE] @ '' (showing snippets of ~''
       @ str_int (snippet_length params) @ '' chars)'' @ NL
       @ concat results @ NL @ NL
       @ ''**Tip:** Use `get_note(note_id)` to retrieve full text of a specific note.''"

definition SearchNotesTool_invoke ::
  "Backend \<Rightarrow> DatasetDefinition \<Rightarrow> SearchNotesInput \<Rightarrow> ToolOutput \<times> sql list" where
  "SearchNotesTool_invoke backend dataset params =
     (let backend_info = get_backend_info backend dataset;
          tables_to_search = SearchNotesTool_get_tables_for_type (note_type params)
      in if tables_to_search = []
         then (\<lparr>result = invalid_note_type backend_info (note_type params)\<rparr>, [])
         else
           let search_term = replace_quote (query params);
               (results, issued) =
                  search_notes_loop backend dataset params search_term tables_to_search ([], [])
           in if results = []
              then (\<lparr>result = no_matches_found backend_info (query params) tables_to_search\<rparr>,
                    issued)
              else (\<lparr>result = search_output backend_info params results\<rparr>, issued))"

subsection \<open>\<^verbatim>\<open>get_note\<close>\<close>

record GetNoteInput =
  note_id :: string
  max_length :: "int option"

definition note_truncated :: "string \<Rightarrow> int \<Rightarrow> string \<Rightarrow> string" where
  "note_truncated backend_info m truncated_result =
     backend_info @ NL @ ''**Note (truncated to '' @ str_int m @ '' chars):**'' @ NL
       @ truncated_result @ NL @ NL @ ''[...truncated...]''"

definition note_not_found :: "string \<Rightarrow> string \<Rightarrow> string" where
  "note_not_found backend_info nid =
     backend_info @ NL @ ''**Error:** Note '' @ [QUOTE] @ nid @ [QUOTE] @ '' not found. ''
       @ ''Use `list_patient_notes(subject_id)` or `search_notes(query)` ''
       @ ''to find valid note IDs.''"

text \<open>The test of line 199: the row counts as the note.\<close>

definition note_found :: "QueryResult \<Rightarrow> bool" where
  "note_found r =
     (success r \<and> truthy (data r) \<and> str_contains ''note_id'' (lower (the (data r))))"

text \<open>What is returned for a found note (lines 202 to 207).\<close>

definition found_output :: "string \<Rightarrow> GetNoteInput \<Rightarrow> string \<Rightarrow> string" where
  "found_output backend_info params d =
     (if (case max_length params of None \<Rightarrow> False | Some m \<Rightarrow> m \<noteq> 0)
          \<and> int (length d) > the (max_length params)
      then note_truncated backend_info (the (max_length params))
             (slice_to d (the (max_length params)))
      else backend_info @ NL @ d)"

text \<open>
  The loop over the tables returns from inside at the first found note; an exception
  and a result that is not a found note both go on to the next table. The return after
  the loop is the case of no table left.
\<close>

fun get_note_loop ::
  "Backend \<Rightarrow> DatasetDefinition \<Rightarrow> string \<Rightarrow> GetNoteInput \<Rightarrow> string \<Rightarrow> string list \<Rightarrow>
   sql list \<Rightarrow> ToolOutput \<times> sql list" where
  "get_note_loop backend dataset backend_info params nid [] issued =
     (\<lparr>result = note_not_found backend_info (note_id params)\<rparr>, issued)"
| "get_note_loop backend dataset backend_info params nid (table # tables) issued =
     (case execute_query backend (GetNoteSql table nid) dataset of
        Returns r \<Rightarrow>
          if note_found r
          then (\<lparr>result = found_output backend_info params (the (data r))\<rparr>,
                issued @ [GetNoteSql table nid])
          else get_note_loop backend dataset backend_info params nid tables
                 (issued @ [GetNoteSql table nid])
      | Raises e \<Rightarrow>
          get_note_loop backend dataset backend_info params nid tables
            (issued @ [GetNoteSql table nid]))"

definition GetNoteTool_invoke ::
  "Backend \<Rightarrow> DatasetDefinition \<Rightarrow> GetNoteInput \<Rightarrow> ToolOutput \<times> sql list" where
  "GetNoteTool_invoke backend dataset params =
     (let backend_info = get_backend_info backend dataset;
          nid = replace_quote (note_id params)
      in get_note_loop backend dataset backend_info params nid [''discharge'', ''radiology''] [])"

subsection \<open>\<^verbatim>\<open>list_patient_notes\<close>\<close>

text \<open>
  The fields \<^verbatim>\<open>note_type\<close> and \<^verbatim>\<open>limit\<close> of \<^verbatim>\<open>ListPatientNotesInput\<close> carry the prefix
  \<open>list_\<close>, the plain names being those of \<^verbatim>\<open>SearchNotesInput\<close>.
\<close>

record ListPatientNotesInput =
  subject_id :: int
  list_note_type :: string
  list_limit :: int

definition list_notes_table ::
  "Backend \<Rightarrow> DatasetDefinition \<Rightarrow> ListPatientNotesInput \<Rightarrow> string \<Rightarrow> string list" where
  "list_notes_table backend dataset params table =
     (case execute_query backend (ListNotesSql table (subject_id params) (list_limit params))
             dataset of
        Returns r \<Rightarrow>
          if success r \<and> truthy (data r)
          then [NL @ ''**'' @ upper table @ '' NOTES:**'' @ NL @ the (data r)]
          else []
      | Raises e \<Rightarrow> [NL @ ''**'' @ upper table @ '':** Error - '' @ e])"

fun list_notes_loop ::
  "Backend \<Rightarrow> DatasetDefinition \<Rightarrow> ListPatientNotesInput \<Rightarrow> string list \<Rightarrow>
   string list \<times> sql list \<Rightarrow> string list \<times> sql list" where
  "list_notes_loop backend dataset params [] st = st"
| "list_notes_loop backend dataset params (table # tables) (results, issued) =
     list_notes_loop backend dataset params tables
       (results @ list_notes_table backend dataset params table,
        issued @ [ListNotesSql table (subject_id params) (list_limit params)])"

definition no_notes_found :: "string \<Rightarrow> int \<Rightarrow> string" where
  "no_notes_found backend_info sid =
     backend_info @ NL @ ''**No notes found** for subject_id '' @ str_int sid @ ''.'' @ NL @ NL
       @ ''**Tip:** Verify the subject_id exists in the related MIMIC-IV dataset.''"

definition list_output :: "string \<Rightarrow> int \<Rightarrow> string list \<Rightarrow> string" where
  "list_output backend_info sid results =
     backend_info @ NL
       @ ''**Notes for subject_id '' @ str_int sid @ '':**'' @ NL
       @ concat results @ NL @ NL
       @ ''**Tip:** Use `get_note(note_id)` to retrieve full text of a specific note.''"

definition ListPatientNotesTool_invoke ::
  "Backend \<Rightarrow> DatasetDefinition \<Rightarrow> ListPatientNotesInput \<Rightarrow> ToolOutput \<times> sql list" where
  "ListPatientNotesTool_invoke backend dataset params =
     (let backend_info = get_backend_info backend dataset;
          tables_to_query = ListPatientNotesTool_get_tables_for_type (list_note_type params)
      in if tables_to_query = []
         then (\<lparr>result = invalid_note_type backend_info (list_note_type params)\<rparr>, [])
         else
           let (results, issued) =
                  list_notes_loop backend dataset params tables_to_query ([], [])
           in if results = [] \<or> list_all (\<lambda>r. str_contains ''no rows'' (lower r)) results
              then (\<lparr>result = no_notes_found backend_info (subject_id params)\<rparr>, issued)
              else (\<lparr>result = list_output backend_info (subject_id params) results\<rparr>, issued))"

subsection \<open>Meaning of the search query on a row\<close>

text \<open>
  The snippet is computed by the query, inside the engine that \<^verbatim>\<open>backend.execute_query\<close>
  hands the query text to. That engine is not part of the sources. The specification
  (section 6) asks of it a case-insensitive substring containment test, substring
  extraction by offset and length, row count limiting and per-column selection, and says
  (section 4.2) what the snippet is. The functions of the query template are modelled to
  that description, with the meaning SQL gives them: positions count from 1, \<^verbatim>\<open>POSITION\<close>
  is 0 when there is no occurrence, a doubled quote inside a literal stands for one quote,
  and in a \<^verbatim>\<open>LIKE\<close> pattern \<^verbatim>\<open>%\<close> matches any run of characters and \<^verbatim>\<open>_\<close> any one
  character.
\<close>

text \<open>
  Modelled from the spec: the engine's reading of the text between the quotes of a string
  literal; the engine is missing from the sources.
\<close>

fun sql_literal :: "string \<Rightarrow> string" where
  "sql_literal (a # b # cs) =
     (if a = QUOTE \<and> b = QUOTE then QUOTE # sql_literal cs else a # sql_literal (b # cs))"
| "sql_literal cs = cs"

text \<open>
  Modelled from the spec: the engine's \<^verbatim>\<open>LOWER\<close>, the case folding of its case-insensitive
  test; it folds the code points as \<^verbatim>\<open>str.lower\<close> does.
\<close>

definition sql_LOWER :: "string \<Rightarrow> string" where
  "sql_LOWER s = map lower_char s"

text \<open>
  Modelled from the spec: the engine's \<^verbatim>\<open>POSITION(sub IN s)\<close>, the place of the first
  occurrence counted from 1, or 0.
\<close>

definition sql_POSITION :: "string \<Rightarrow> string \<Rightarrow> int" where
  "sql_POSITION sub s = (case str_find sub s of None \<Rightarrow> 0 | Some p \<Rightarrow> int p + 1)"

text \<open>
  Modelled from the spec: the engine's \<^verbatim>\<open>SUBSTRING(s, start, len)\<close>, the characters at the
  places from \<open>start\<close> up to and without \<open>start + len\<close> that the string has.
\<close>

definition sql_SUBSTRING :: "string \<Rightarrow> int \<Rightarrow> int \<Rightarrow> string" where
  "sql_SUBSTRING s start len =
     (let e = start + len; b = max start 1
      in if e \<le> b then [] else take (nat (e - b)) (drop (nat (b - 1)) s))"

text \<open>Modelled from the spec: the engine's \<^verbatim>\<open>LEFT(s, n)\<close>, the first \<open>n\<close> characters.\<close>

definition sql_LEFT :: "string \<Rightarrow> int \<Rightarrow> string" where
  "sql_LEFT s n = take (nat n) s"

text \<open>Modelled from the spec: the engine's \<^verbatim>\<open>GREATEST\<close> of two numbers.\<close>

definition sql_GREATEST :: "int \<Rightarrow> int \<Rightarrow> int" where
  "sql_GREATEST a b = max a b"

text \<open>
  Modelled from the spec: the engine's \<^verbatim>\<open>s LIKE pattern\<close>, the substring containment test
  of the \<^verbatim>\<open>WHERE\<close> clause.
\<close>

fun sql_LIKE :: "string \<Rightarrow> string \<Rightarrow> bool" where
  "sql_LIKE [] [] = True"
| "sql_LIKE (c # cs) [] = False"
| "sql_LIKE [] (p # ps) = (p = CHR ''%'' \<and> sql_LIKE [] ps)"
| "sql_LIKE (c # cs) (p # ps) =
     (if p = CHR ''%'' then sql_LIKE (c # cs) ps \<or> sql_LIKE cs (p # ps)
      else (p = CHR ''_'' \<or> p = c) \<and> sql_LIKE cs ps)"

text \<open>
  The \<^verbatim>\<open>CASE\<close> expression that the template of lines 97 to 114 selects as \<^verbatim>\<open>snippet\<close>,
  over the modelled functions.
\<close>

definition snippet :: "string \<Rightarrow> int \<Rightarrow> int \<Rightarrow> string \<Rightarrow> string" where
  "snippet search_term half len text =
     (if sql_POSITION (sql_LOWER (sql_literal search_term)) (sql_LOWER text) > 0
      then sql_SUBSTRING text
             (sql_GREATEST 1
                (sql_POSITION (sql_LOWER (sql_literal search_term)) (sql_LOWER text) - half))
             len
      else sql_LEFT text len)"

text \<open>The \<^verbatim>\<open>WHERE\<close> clause of the template (line 112), over the modelled functions.\<close>

definition row_matches :: "string \<Rightarrow> string \<Rightarrow> bool" where
  "row_matches like_term text =
     sql_LIKE (sql_LOWER text) (sql_literal (''%'' @ like_term @ ''%''))"

text \<open>The snippet a search query selects for a row with the given text, if it selects the row.\<close>

fun select_snippet :: "sql \<Rightarrow> string \<Rightarrow> string option" where
  "select_snippet (SearchNotesSql table search_term half len like_term lim) text =
     (if row_matches like_term text then Some (snippet search_term half len text) else None)"
| "select_snippet (GetNoteSql table nid) text = None"
| "select_snippet (ListNotesSql table sid lim) text = None"

subsection \<open>Backends for the examples\<close>

text \<open>A backend whose answer depends on the table of the query only.\<close>

fun table_of :: "sql \<Rightarrow> string" where
  "table_of (SearchNotesSql table search_term half len like_term lim) = table"
| "table_of (GetNoteSql table nid) = table"
| "table_of (ListNotesSql table sid lim) = table"

definition table_backend :: "(string \<Rightarrow> outcome) \<Rightarrow> Backend" where
  "table_backend f =
     \<lparr>get_backend_info = (\<lambda>dataset. ''Backend: demo''),
      execute_query = (\<lambda>q dataset. f (table_of q))\<rparr>"

definition notes_dataset :: DatasetDefinition where
  "notes_dataset = \<lparr>name = ''mimic-iv-note'', modalities = {NOTES}\<rparr>"

definition rows :: "string \<Rightarrow> outcome" where
  "rows d = Returns \<lparr>success = True, data = Some d\<rparr>"

definition failure :: outcome where
  "failure = Returns \<lparr>success = False, data = None\<rparr>"

definition discharge_only_backend :: Backend where
  "discharge_only_backend =
     table_backend (\<lambda>t. if t = ''discharge'' then rows ''note_id 10000032-DS-21'' else failure)"

definition radiology_down_backend :: Backend where
  "radiology_down_backend =
     table_backend
       (\<lambda>t. if t = ''discharge'' then rows ''note_id 10000032-DS-21''
            else Raises ''connection lost'')"

definition discharge_down_backend :: Backend where
  "discharge_down_backend =
     table_backend
       (\<lambda>t. if t = ''discharge'' then Raises ''connection lost''
            else rows ''note_id 10000032-RR-14 CHEST PA AND LAT'')"

definition failing_backend :: Backend where
  "failing_backend = table_backend (\<lambda>t. failure)"

definition radiology_only_backend :: Backend where
  "radiology_only_backend =
     table_backend
       (\<lambda>t. if t = ''discharge'' then rows ''No results found''
            else rows ''note_id 10000032-RR-14 CHEST PA AND LAT'')"



subsection \<open>Vocabulary of the statements\<close>

text \<open>
  The snippet in the words of the specification: around the first occurrence of the query at
  offset \<open>p\<close>, from offset \<open>max 0 (p - snippet_length / 2)\<close>, at most \<open>snippet_length\<close>
  characters; the first \<open>snippet_length\<close> characters when there is no occurrence.
\<close>

definition spec_snippet :: "string \<Rightarrow> int \<Rightarrow> string \<Rightarrow> string" where
  "spec_snippet q len text =
     (case str_find (lower q) (lower text) of
        Some p \<Rightarrow> take (nat len) (drop (nat (max 0 (int p - len div 2))) text)
      | None \<Rightarrow> take (nat len) text)"

text \<open>An answer of the backend that \<^verbatim>\<open>get_note\<close> takes for the note, and its payload.\<close>

fun yields_note :: "outcome \<Rightarrow> bool" where
  "yields_note (Returns r) = note_found r"
| "yields_note (Raises e) = False"

fun payload :: "outcome \<Rightarrow> string" where
  "payload (Returns r) = the (data r)"
| "payload (Raises e) = []"


section \<open>Auxiliary facts\<close>

subsection \<open>Strings and the SQL functions\<close>

lemma lower_char_idem: "lower_char (lower_char c) = lower_char c"
  by (auto simp: lower_char_def Let_def)

lemma lower_idem: "lower (lower s) = lower s"
  by (simp add: lower_def lower_char_idem)


lemma lower_char_QUOTE: "lower_char c = QUOTE \<longleftrightarrow> c = QUOTE"
proof
  assume h: "lower_char c = QUOTE"
  show "c = QUOTE"
  proof (cases "(65 \<le> (of_char c :: nat) \<and> (of_char c :: nat) \<le> 90)
      \<or> (192 \<le> (of_char c :: nat) \<and> (of_char c :: nat) \<le> 222 \<and> (of_char c :: nat) \<noteq> 215)")
    case True
    then have "lower_char c = char_of ((of_char c :: nat) + 32)"
      by (simp add: lower_char_def)
    with h have "of_char (char_of ((of_char c :: nat) + 32)) = (of_char QUOTE :: nat)"
      by simp
    with True show ?thesis by (simp only: of_char_of) auto
  next
    case False
    with h show ?thesis by (simp add: lower_char_def)
  qed
next
  assume "c = QUOTE" then show "lower_char c = QUOTE" by (simp add: lower_char_def)
qed

lemma lower_replace_quote: "lower (replace_quote q) = replace_quote (lower q)"
  by (induction q) (auto simp: lower_def lower_char_QUOTE)

lemma sql_literal_Cons: "c \<noteq> QUOTE \<Longrightarrow> sql_literal (c # cs) = c # sql_literal cs"
  by (cases cs) simp_all

lemma sql_literal_replace_quote: "sql_literal (replace_quote q @ s) = q @ sql_literal s"
  by (induction q) (simp_all add: sql_literal_Cons)

lemma str_find_Some:
  "str_find sub s = Some p \<Longrightarrow>
     p \<le> length s \<and> prefix sub (drop p s) \<and> (\<forall>j<p. \<not> prefix sub (drop j s))"
proof (induction s arbitrary: p)
  case Nil
  then show ?case by (simp split: if_splits)
next
  case (Cons c cs)
  show ?case
  proof (cases "prefix sub (c # cs)")
    case True
    with Cons.prems show ?thesis by simp
  next
    case False
    with Cons.prems obtain p' where p': "str_find sub cs = Some p'" "p = Suc p'"
      by auto
    from Cons.IH[OF p'(1)] False p'(2) show ?thesis
      by (auto simp: less_Suc_eq_0_disj)
  qed
qed

lemma str_find_None:
  "str_find sub s = None \<Longrightarrow> \<forall>j\<le>length s. \<not> prefix sub (drop j s)"
proof (induction s)
  case Nil
  then show ?case by (auto split: if_splits)
next
  case (Cons c cs)
  then have np: "\<not> prefix sub (c # cs)" and n: "str_find sub cs = None"
    by (auto split: if_splits)
  show ?case
  proof (intro allI impI)
    fix j assume "j \<le> length (c # cs)"
    then show "\<not> prefix sub (drop j (c # cs))"
      using np Cons.IH[OF n] by (cases j) auto
  qed
qed

lemma str_contains_iff: "str_contains sub s \<longleftrightarrow> (\<exists>a b. s = a @ sub @ b)"
proof
  assume "str_contains sub s"
  then obtain p where p: "str_find sub s = Some p" by (auto simp: str_contains_def)
  from str_find_Some[OF p] obtain b where "drop p s = sub @ b" by (auto simp: prefix_def)
  then have "s = take p s @ sub @ b" by (metis append_take_drop_id)
  then show "\<exists>a b. s = a @ sub @ b" by blast
next
  assume "\<exists>a b. s = a @ sub @ b"
  then obtain a b where s: "s = a @ sub @ b" by blast
  show "str_contains sub s"
  proof (rule ccontr)
    assume "\<not> str_contains sub s"
    then have "str_find sub s = None" by (simp add: str_contains_def)
    from str_find_None[OF this] have "length a \<le> length s \<longrightarrow> \<not> prefix sub (drop (length a) s)"
      by blast
    then show False by (simp add: s)
  qed
qed


lemma sql_LIKE_percent: "sql_LIKE s ps \<Longrightarrow> sql_LIKE s (CHR ''%'' # ps)"
  by (cases s) simp_all

lemma sql_LIKE_skip: "sql_LIKE s ps \<Longrightarrow> sql_LIKE (a @ s) (CHR ''%'' # ps)"
  by (induction a) (simp_all add: sql_LIKE_percent)

lemma sql_LIKE_any: "sql_LIKE b ''%''"
  by (induction b) simp_all

lemma sql_LIKE_self: "sql_LIKE (n @ b) (n @ ''%'')"
proof (induction n)
  case Nil
  show ?case using sql_LIKE_any by simp
next
  case (Cons c n)
  show ?case
  proof (cases "c = CHR ''%''")
    case True
    have "sql_LIKE (n @ b) (CHR ''%'' # n @ ''%'')"
      using Cons.IH by (rule sql_LIKE_percent)
    with True show ?thesis by simp
  next
    case False
    with Cons.IH show ?thesis by simp
  qed
qed

lemma sql_LIKE_contains: "sql_LIKE (a @ n @ b) (''%'' @ n @ ''%'')"
  using sql_LIKE_skip[OF sql_LIKE_self, of a n b] by simp

lemma search_notes_loop_eq:
  "search_notes_loop be ds p search_term tables (results, issued) =
     (results @ concat (map (search_notes_table be ds p search_term) tables),
      issued @ map (search_notes_sql p search_term) tables)"
  by (induction tables arbitrary: results issued) simp_all

lemma list_notes_loop_eq:
  "list_notes_loop be ds p tables (results, issued) =
     (results @ concat (map (list_notes_table be ds p) tables),
      issued @ map (\<lambda>t. ListNotesSql t (subject_id p) (list_limit p)) tables)"
  by (induction tables arbitrary: results issued) simp_all

lemma lower_selectors:
  "lower ''discharge'' = ''discharge''" "lower ''radiology'' = ''radiology''"
  "lower ''all'' = ''all''" "lower ''ALL'' = ''all''" "lower ''Radiology'' = ''radiology''"
  "lower ''notes'' = ''notes''"
  by code_simp+

lemma upper_tables:
  "upper ''discharge'' = ''DISCHARGE''" "upper ''radiology'' = ''RADIOLOGY''"
  by code_simp+

lemma search_notes_sql_note_type:
  "search_notes_sql (p\<lparr>note_type := x\<rparr>) = search_notes_sql p"
  by (simp add: search_notes_sql_def fun_eq_iff)

lemma search_notes_table_note_type:
  "search_notes_table be ds (p\<lparr>note_type := x\<rparr>) = search_notes_table be ds p"
  by (simp add: search_notes_table_def search_notes_sql_note_type fun_eq_iff)

lemma search_output_note_type:
  "search_output info (p\<lparr>note_type := x\<rparr>) = search_output info p"
  by (simp add: search_output_def fun_eq_iff)

lemma list_notes_table_note_type:
  "list_notes_table be ds (lp\<lparr>list_note_type := x\<rparr>) = list_notes_table be ds lp"
  by (simp add: list_notes_table_def fun_eq_iff)

subsection \<open>The tools as closed forms\<close>

lemma SearchNotesTool_invoke_eq:
  "SearchNotesTool_invoke be ds p =
     (let info = get_backend_info be ds;
          tables = SearchNotesTool_get_tables_for_type (note_type p);
          search_term = replace_quote (query p);
          results = concat (map (search_notes_table be ds p search_term) tables)
      in (\<lparr>result =
            (if tables = [] then invalid_note_type info (note_type p)
             else if results = [] then no_matches_found info (query p) tables
             else search_output info p results)\<rparr>,
          map (search_notes_sql p search_term) tables))"
  by (simp add: SearchNotesTool_invoke_def search_notes_loop_eq Let_def)

lemma ListPatientNotesTool_invoke_eq:
  "ListPatientNotesTool_invoke be ds p =
     (let info = get_backend_info be ds;
          tables = ListPatientNotesTool_get_tables_for_type (list_note_type p);
          results = concat (map (list_notes_table be ds p) tables)
      in (\<lparr>result =
            (if tables = [] then invalid_note_type info (list_note_type p)
             else if results = [] \<or> list_all (\<lambda>r. str_contains ''no rows'' (lower r)) results
             then no_notes_found info (subject_id p)
             else list_output info (subject_id p) results)\<rparr>,
          map (\<lambda>t. ListNotesSql t (subject_id p) (list_limit p)) tables))"
  by (simp add: ListPatientNotesTool_invoke_def list_notes_loop_eq Let_def)


lemma GetNoteTool_invoke_eq:
  "GetNoteTool_invoke be ds p =
     (let info = get_backend_info be ds;
          nid = replace_quote (note_id p);
          q1 = GetNoteSql ''discharge'' nid;
          q2 = GetNoteSql ''radiology'' nid;
          o1 = execute_query be q1 ds;
          o2 = execute_query be q2 ds
      in if yields_note o1 then (\<lparr>result = found_output info p (payload o1)\<rparr>, [q1])
         else if yields_note o2 then (\<lparr>result = found_output info p (payload o2)\<rparr>, [q1, q2])
         else (\<lparr>result = note_not_found info (note_id p)\<rparr>, [q1, q2]))"
  by (auto simp: GetNoteTool_invoke_def Let_def split: outcome.splits)

section \<open>Properties of the tools\<close>

subsection \<open>Capability gate\<close>

text \<open>
  Claim C1. For every tool and every dataset, \<^verbatim>\<open>is_compatible\<close> is false when the
  allow-list of the tool is set to some names and the name of the dataset is not among
  them, false when the required modalities are not all among those of the dataset, and
  true otherwise. The tools \<^verbatim>\<open>search_notes\<close>, \<^verbatim>\<open>get_note\<close> and \<^verbatim>\<open>list_patient_notes\<close> have
  no allow-list and require the modality "notes", so for them the answer is the presence
  of "notes" among the modalities of the dataset; no parameter of the call is read.
\<close>

theorem capability_gate:
  "is_compatible tool ds =
     (\<not> (\<exists>s. supported_datasets tool = Some s \<and> s \<noteq> {} \<and> name ds \<notin> s)
      \<and> required_modalities tool \<subseteq> modalities ds)
   \<and> (tool \<in> {SearchNotesTool, GetNoteTool, ListPatientNotesTool} \<longrightarrow>
        supported_datasets tool = None \<and> required_modalities tool = {NOTES}
        \<and> (is_compatible tool ds \<longleftrightarrow> NOTES \<in> modalities ds))"
proof -
  have a: "is_compatible tool ds =
     (\<not> (\<exists>s. supported_datasets tool = Some s \<and> s \<noteq> {} \<and> name ds \<notin> s)
      \<and> required_modalities tool \<subseteq> modalities ds)"
    by (cases "supported_datasets tool") (auto simp: is_compatible_def)
  have b: "supported_datasets tool = None \<and> required_modalities tool = {NOTES}
        \<and> (is_compatible tool ds \<longleftrightarrow> NOTES \<in> modalities ds)"
    if "tool \<in> {SearchNotesTool, GetNoteTool, ListPatientNotesTool}"
    using that
    by (auto simp: is_compatible_def SearchNotesTool_def GetNoteTool_def
        ListPatientNotesTool_def)
  from a b show ?thesis by blast
qed

theorem capability_gate_witness:
  "\<not> is_compatible (GetNoteTool\<lparr>supported_datasets := Some {''mimic-iv-note''}\<rparr>)
        \<lparr>name = ''mimic-iv-demo'', modalities = {NOTES, TABULAR}\<rparr>
   \<and> is_compatible (GetNoteTool\<lparr>supported_datasets := Some {''mimic-iv-note''}\<rparr>)
        \<lparr>name = ''mimic-iv-note'', modalities = {NOTES}\<rparr>
   \<and> is_compatible GetNoteTool \<lparr>name = ''mimic-iv-note'', modalities = {NOTES}\<rparr>
   \<and> \<not> is_compatible GetNoteTool \<lparr>name = ''mimic-iv-demo'', modalities = {TABULAR}\<rparr>"
  using capability_gate
      [of "GetNoteTool\<lparr>supported_datasets := Some {''mimic-iv-note''}\<rparr>"
        "\<lparr>name = ''mimic-iv-demo'', modalities = {NOTES, TABULAR}\<rparr>"]
    capability_gate
      [of "GetNoteTool\<lparr>supported_datasets := Some {''mimic-iv-note''}\<rparr>"
        "\<lparr>name = ''mimic-iv-note'', modalities = {NOTES}\<rparr>"]
    capability_gate [of GetNoteTool "\<lparr>name = ''mimic-iv-note'', modalities = {NOTES}\<rparr>"]
    capability_gate [of GetNoteTool "\<lparr>name = ''mimic-iv-demo'', modalities = {TABULAR}\<rparr>"]
  by (simp add: GetNoteTool_def)

subsection \<open>Note type selectors\<close>

text \<open>
  Claim C2, amended. \<^verbatim>\<open>"discharge"\<close> resolves to the table discharge, \<^verbatim>\<open>"radiology"\<close> to
  radiology and \<^verbatim>\<open>"all"\<close> to discharge followed by radiology, for \<^verbatim>\<open>search_notes\<close> and
  for \<^verbatim>\<open>list_patient_notes\<close>; the queries issued are one per resolved table, in that
  order; and every value whose lower-case form is none of the three yields the
  invalid-note_type message and no query at all.
\<close>

theorem note_type_resolution:
  "SearchNotesTool_get_tables_for_type ''discharge'' = [''discharge'']
   \<and> SearchNotesTool_get_tables_for_type ''radiology'' = [''radiology'']
   \<and> SearchNotesTool_get_tables_for_type ''all'' = [''discharge'', ''radiology'']
   \<and> ListPatientNotesTool_get_tables_for_type ''discharge'' = [''discharge'']
   \<and> ListPatientNotesTool_get_tables_for_type ''radiology'' = [''radiology'']
   \<and> ListPatientNotesTool_get_tables_for_type ''all'' = [''discharge'', ''radiology'']
   \<and> snd (SearchNotesTool_invoke be ds p)
       = map (search_notes_sql p (replace_quote (query p)))
           (SearchNotesTool_get_tables_for_type (note_type p))
   \<and> snd (ListPatientNotesTool_invoke be ds lp)
       = map (\<lambda>t. ListNotesSql t (subject_id lp) (list_limit lp))
           (ListPatientNotesTool_get_tables_for_type (list_note_type lp))
   \<and> (lower (note_type p) \<notin> {''discharge'', ''radiology'', ''all''} \<longrightarrow>
        SearchNotesTool_invoke be ds p
          = (\<lparr>result = invalid_note_type (get_backend_info be ds) (note_type p)\<rparr>, []))
   \<and> (lower (list_note_type lp) \<notin> {''discharge'', ''radiology'', ''all''} \<longrightarrow>
        ListPatientNotesTool_invoke be ds lp
          = (\<lparr>result = invalid_note_type (get_backend_info be ds) (list_note_type lp)\<rparr>, []))"
proof -
  show ?thesis
    by (simp add: SearchNotesTool_invoke_eq ListPatientNotesTool_invoke_eq
        SearchNotesTool_get_tables_for_type_def ListPatientNotesTool_get_tables_for_type_def
        lower_selectors Let_def)
qed

theorem note_type_resolution_witness:
  "lower ''notes'' \<notin> {''discharge'', ''radiology'', ''all''}
   \<and> SearchNotesTool_invoke failing_backend notes_dataset
        \<lparr>query = ''sepsis'', note_type = ''notes'', limit = 5, snippet_length = 300\<rparr>
      = (\<lparr>result = invalid_note_type ''Backend: demo'' ''notes''\<rparr>, [])
   \<and> ListPatientNotesTool_invoke failing_backend notes_dataset
        \<lparr>subject_id = 10000032, list_note_type = ''notes'', list_limit = 20\<rparr>
      = (\<lparr>result = invalid_note_type ''Backend: demo'' ''notes''\<rparr>, [])"
  using note_type_resolution [of failing_backend notes_dataset
      "\<lparr>query = ''sepsis'', note_type = ''notes'', limit = 5, snippet_length = 300\<rparr>"
      "\<lparr>subject_id = 10000032, list_note_type = ''notes'', list_limit = 20\<rparr>"]
  by (simp add: lower_selectors failing_backend_def table_backend_def)

text \<open>
  The claim as it is worded fails: \<^verbatim>\<open>"ALL"\<close> is none of the three lower-case values, and
  yet it is resolved to both tables, queries are issued, and the answer is not the
  invalid-input message.
\<close>

theorem note_type_other_value_counterexample:
  "''ALL'' \<notin> {''discharge'', ''radiology'', ''all''}
   \<and> SearchNotesTool_get_tables_for_type ''ALL'' = [''discharge'', ''radiology'']
   \<and> snd (SearchNotesTool_invoke failing_backend notes_dataset
        \<lparr>query = ''sepsis'', note_type = ''ALL'', limit = 5, snippet_length = 300\<rparr>)
     = [SearchNotesSql ''discharge'' ''sepsis'' 150 300 ''sepsis'' 5,
        SearchNotesSql ''radiology'' ''sepsis'' 150 300 ''sepsis'' 5]
   \<and> result (fst (SearchNotesTool_invoke failing_backend notes_dataset
        \<lparr>query = ''sepsis'', note_type = ''ALL'', limit = 5, snippet_length = 300\<rparr>))
     \<noteq> invalid_note_type ''Backend: demo'' ''ALL''"
  by code_simp

text \<open>
  Claim C8. The selector is matched without regard to case: a value resolves to the tables
  of its lower-case form, and when that form is one of the three selectors the value is
  not rejected: the table list is not empty, the whole answer of either tool is that for
  the lower-case form, and it is not the invalid-note_type message.
\<close>

theorem note_type_case_insensitive:
  "SearchNotesTool_get_tables_for_type nt = SearchNotesTool_get_tables_for_type (lower nt)
   \<and> ListPatientNotesTool_get_tables_for_type nt
       = ListPatientNotesTool_get_tables_for_type (lower nt)
   \<and> (lower nt \<in> {''discharge'', ''radiology'', ''all''} \<longrightarrow>
        SearchNotesTool_get_tables_for_type nt \<noteq> []
        \<and> ListPatientNotesTool_get_tables_for_type nt \<noteq> []
        \<and> SearchNotesTool_invoke be ds (p\<lparr>note_type := nt\<rparr>)
            = SearchNotesTool_invoke be ds (p\<lparr>note_type := lower nt\<rparr>)
        \<and> ListPatientNotesTool_invoke be ds (lp\<lparr>list_note_type := nt\<rparr>)
            = ListPatientNotesTool_invoke be ds (lp\<lparr>list_note_type := lower nt\<rparr>)
        \<and> result (fst (SearchNotesTool_invoke be ds (p\<lparr>note_type := nt\<rparr>)))
            \<noteq> invalid_note_type (get_backend_info be ds) nt
        \<and> result (fst (ListPatientNotesTool_invoke be ds (lp\<lparr>list_note_type := nt\<rparr>)))
            \<noteq> invalid_note_type (get_backend_info be ds) nt)"
proof -
  have a: "SearchNotesTool_get_tables_for_type nt = SearchNotesTool_get_tables_for_type (lower nt)"
    by (simp add: SearchNotesTool_get_tables_for_type_def lower_idem)
  have b: "ListPatientNotesTool_get_tables_for_type nt
       = ListPatientNotesTool_get_tables_for_type (lower nt)"
    by (simp add: ListPatientNotesTool_get_tables_for_type_def lower_idem)
  have c: "SearchNotesTool_get_tables_for_type nt \<noteq> []"
      "ListPatientNotesTool_get_tables_for_type nt \<noteq> []"
    if "lower nt \<in> {''discharge'', ''radiology'', ''all''}"
    using that
    by (auto simp: SearchNotesTool_get_tables_for_type_def
        ListPatientNotesTool_get_tables_for_type_def)
  have d: "SearchNotesTool_invoke be ds (p\<lparr>note_type := nt\<rparr>)
            = SearchNotesTool_invoke be ds (p\<lparr>note_type := lower nt\<rparr>)"
    if "lower nt \<in> {''discharge'', ''radiology'', ''all''}"
    using c(1)[OF that] a
    by (simp add: SearchNotesTool_invoke_eq Let_def search_notes_table_note_type
        search_notes_sql_note_type search_output_note_type)
  have e: "ListPatientNotesTool_invoke be ds (lp\<lparr>list_note_type := nt\<rparr>)
            = ListPatientNotesTool_invoke be ds (lp\<lparr>list_note_type := lower nt\<rparr>)"
    if "lower nt \<in> {''discharge'', ''radiology'', ''all''}"
    using c(2)[OF that] b
    by (simp add: ListPatientNotesTool_invoke_eq Let_def list_notes_table_note_type)
  have f: "result (fst (SearchNotesTool_invoke be ds (p\<lparr>note_type := nt\<rparr>)))
            \<noteq> invalid_note_type (get_backend_info be ds) nt"
    if "lower nt \<in> {''discharge'', ''radiology'', ''all''}"
    using c(1)[OF that]
    by (simp add: SearchNotesTool_invoke_eq Let_def invalid_note_type_def no_matches_found_def
        search_output_def)
  have g: "result (fst (ListPatientNotesTool_invoke be ds (lp\<lparr>list_note_type := nt\<rparr>)))
            \<noteq> invalid_note_type (get_backend_info be ds) nt"
    if "lower nt \<in> {''discharge'', ''radiology'', ''all''}"
    using c(2)[OF that]
    by (simp add: ListPatientNotesTool_invoke_eq Let_def invalid_note_type_def no_notes_found_def
        list_output_def)
  from a b c d e f g show ?thesis by blast
qed

theorem note_type_case_insensitive_witness:
  "lower ''Radiology'' \<in> {''discharge'', ''radiology'', ''all''}
   \<and> SearchNotesTool_get_tables_for_type ''Radiology'' = [''radiology'']
   \<and> ListPatientNotesTool_get_tables_for_type ''Radiology'' = [''radiology'']"
  using note_type_case_insensitive [of "''Radiology''"]
  by (simp add: lower_selectors SearchNotesTool_get_tables_for_type_def
      ListPatientNotesTool_get_tables_for_type_def)

subsection \<open>Search: snippets\<close>

lemma sql_LOWER_lower: "sql_LOWER s = lower s"
  by (simp add: sql_LOWER_def lower_def)

lemma sql_literal_search_term: "sql_literal (replace_quote q) = q"
  using sql_literal_replace_quote [of q "[]"] by simp

lemma sql_literal_like_term:
  "sql_literal (CHR ''%'' # lower (replace_quote q) @ ''%'') = CHR ''%'' # lower q @ ''%''"
proof -
  have "sql_literal (CHR ''%'' # replace_quote (lower q) @ ''%'')
          = CHR ''%'' # sql_literal (replace_quote (lower q) @ ''%'')"
    by (rule sql_literal_Cons) simp
  then show ?thesis
    by (simp add: lower_replace_quote sql_literal_replace_quote)
qed

lemma snippet_eq_spec:
  assumes "0 \<le> len"
  shows "snippet (replace_quote q) (len div 2) len text = spec_snippet q len text"
proof (cases "str_find (lower q) (lower text)")
  case None
  then show ?thesis
    by (simp add: snippet_def spec_snippet_def sql_literal_search_term sql_LOWER_lower
        sql_POSITION_def sql_LEFT_def)
next
  case (Some p)
  have pos: "sql_POSITION (lower q) (lower text) = int p + 1"
    by (simp add: sql_POSITION_def Some)
  have start: "nat (max 1 (int p + 1 - len div 2) - 1) = nat (max 0 (int p - len div 2))"
    by simp
  show ?thesis
  proof (cases "len = 0")
    case True
    then show ?thesis
      by (simp add: snippet_def spec_snippet_def sql_literal_search_term sql_LOWER_lower pos
          Some sql_SUBSTRING_def sql_GREATEST_def Let_def)
  next
    case False
    with assms have "0 < len" by simp
    then show ?thesis
      using start
      by (simp add: snippet_def spec_snippet_def sql_literal_search_term sql_LOWER_lower pos
          Some sql_SUBSTRING_def sql_GREATEST_def Let_def max_def)
  qed
qed

lemma row_matches_contains:
  assumes "str_contains (lower q) (lower text)"
  shows "row_matches (lower (replace_quote q)) text"
proof -
  from assms obtain a b where "lower text = a @ lower q @ b"
    by (auto simp: str_contains_iff)
  then show ?thesis
    using sql_LIKE_contains [of a "lower q" b]
    by (simp add: row_matches_def sql_literal_like_term sql_LOWER_lower del: sql_literal.simps)
qed

text \<open>
  Claim C3, amended. For a snippet length from 0 on, every query that \<^verbatim>\<open>search_notes\<close>
  issues selects for a matching row the snippet the specification describes: with the
  first occurrence of the query in the text, compared in lower case, at offset \<open>pos\<close>, it
  is the part of the text that starts at offset \<open>max 0 (pos - snippet_length div 2)\<close> and
  has \<open>snippet_length\<close> characters, or fewer when the text ends before; without an
  occurrence it is the first \<open>snippet_length\<close> characters. It is never longer than
  \<open>snippet_length\<close> and is a part of the text. A row whose text holds the query in any
  mixture of cases is matched, so \<^verbatim>\<open>"TARGET"\<close> matches a text with \<^verbatim>\<open>"target"\<close>.
\<close>

theorem snippet_extraction:
  assumes "0 \<le> snippet_length p"
  shows "snd (SearchNotesTool_invoke be ds p)
           = map (search_notes_sql p (replace_quote (query p)))
               (SearchNotesTool_get_tables_for_type (note_type p))
         \<and> (\<forall>q\<in>set (snd (SearchNotesTool_invoke be ds p)).
              select_snippet q text
                = (if row_matches (lower (replace_quote (query p))) text
                   then Some (spec_snippet (query p) (snippet_length p) text) else None))
         \<and> int (length (spec_snippet (query p) (snippet_length p) text)) \<le> snippet_length p
         \<and> (\<exists>i. spec_snippet (query p) (snippet_length p) text
                  = take (nat (snippet_length p)) (drop i text))
         \<and> (\<forall>pos. str_find (lower (query p)) (lower text) = Some pos \<longrightarrow>
               pos \<le> length text
               \<and> prefix (lower (query p)) (drop pos (lower text))
               \<and> (\<forall>j<pos. \<not> prefix (lower (query p)) (drop j (lower text))))
         \<and> (str_find (lower (query p)) (lower text) = None \<longrightarrow>
               \<not> str_contains (lower (query p)) (lower text))
         \<and> (str_contains (lower (query p)) (lower text) \<longrightarrow>
               row_matches (lower (replace_quote (query p))) text)"
proof -
  have issued: "snd (SearchNotesTool_invoke be ds p)
           = map (search_notes_sql p (replace_quote (query p)))
               (SearchNotesTool_get_tables_for_type (note_type p))"
    by (simp add: SearchNotesTool_invoke_eq Let_def)
  have one: "select_snippet (search_notes_sql p (replace_quote (query p)) t) text
           = (if row_matches (lower (replace_quote (query p))) text
              then Some (spec_snippet (query p) (snippet_length p) text) else None)" for t
    using snippet_eq_spec [OF assms] by (simp add: search_notes_sql_def)
  have a: "\<forall>q\<in>set (snd (SearchNotesTool_invoke be ds p)).
              select_snippet q text
                = (if row_matches (lower (replace_quote (query p))) text
                   then Some (spec_snippet (query p) (snippet_length p) text) else None)"
    unfolding issued using one by auto
  have "length (spec_snippet (query p) (snippet_length p) text) \<le> nat (snippet_length p)"
    by (simp add: spec_snippet_def split: option.splits)
  with assms
  have b: "int (length (spec_snippet (query p) (snippet_length p) text)) \<le> snippet_length p"
    by linarith
  have c: "\<exists>i. spec_snippet (query p) (snippet_length p) text
                  = take (nat (snippet_length p)) (drop i text)"
  proof (cases "str_find (lower (query p)) (lower text)")
    case None
    then have "spec_snippet (query p) (snippet_length p) text
        = take (nat (snippet_length p)) (drop 0 text)"
      by (simp add: spec_snippet_def)
    then show ?thesis by blast
  next
    case (Some pos)
    then show ?thesis by (auto simp: spec_snippet_def)
  qed
  have d: "\<forall>pos. str_find (lower (query p)) (lower text) = Some pos \<longrightarrow>
               pos \<le> length text
               \<and> prefix (lower (query p)) (drop pos (lower text))
               \<and> (\<forall>j<pos. \<not> prefix (lower (query p)) (drop j (lower text)))"
    using str_find_Some [of "lower (query p)" "lower text"] by (simp add: lower_def)
  have e: "str_find (lower (query p)) (lower text) = None \<longrightarrow>
               \<not> str_contains (lower (query p)) (lower text)"
    by (simp add: str_contains_def)
  have f: "str_contains (lower (query p)) (lower text) \<longrightarrow>
               row_matches (lower (replace_quote (query p))) text"
    using row_matches_contains by blast
  from issued a b c d e f show ?thesis by blast
qed

lemma snippet_example:
  "row_matches (lower ''TARGET'') ''some words target phrase here''"
  "spec_snippet ''TARGET'' 10 ''some words target phrase here'' = ''ords targe''"
  by code_simp+

lemma snippet_example2:
  "snd (SearchNotesTool_invoke failing_backend notes_dataset
      \<lparr>query = ''TARGET'', note_type = ''discharge'', limit = 5, snippet_length = 10\<rparr>)
   = [SearchNotesSql ''discharge'' ''TARGET'' 5 10 ''target'' 5]"
  "snd (SearchNotesTool_invoke failing_backend notes_dataset
      \<lparr>query = [CHR ''c'', CHR ''a'', CHR ''f'', CHR 0xE9], note_type = ''discharge'',
       limit = 5, snippet_length = 2\<rparr>)
   = [SearchNotesSql ''discharge'' [CHR ''c'', CHR ''a'', CHR ''f'', CHR 0xE9] 1 2
        [CHR ''c'', CHR ''a'', CHR ''f'', CHR 0xE9] 5]"
  "row_matches (lower [CHR ''c'', CHR ''a'', CHR ''f'', CHR 0xE9])
     [CHR ''a'', CHR '' '', CHR ''C'', CHR ''A'', CHR ''F'', CHR 0xC9]"
  "spec_snippet [CHR ''c'', CHR ''a'', CHR ''f'', CHR 0xE9] 2
     [CHR ''a'', CHR '' '', CHR ''C'', CHR ''A'', CHR ''F'', CHR 0xC9] = '' C''"
  by code_simp+

theorem snippet_extraction_witness:
  "select_snippet (SearchNotesSql ''discharge'' ''TARGET'' 5 10 ''target'' 5)
      ''some words target phrase here''
     = Some ''ords targe''
   \<and> select_snippet
       (SearchNotesSql ''discharge'' [CHR ''c'', CHR ''a'', CHR ''f'', CHR 0xE9] 1 2
          [CHR ''c'', CHR ''a'', CHR ''f'', CHR 0xE9] 5)
       [CHR ''a'', CHR '' '', CHR ''C'', CHR ''A'', CHR ''F'', CHR 0xC9]
     = Some '' C''"
proof -
  let ?p = "\<lparr>query = ''TARGET'', note_type = ''discharge'', limit = 5, snippet_length = 10\<rparr>"
  let ?c = "\<lparr>query = [CHR ''c'', CHR ''a'', CHR ''f'', CHR 0xE9], note_type = ''discharge'',
       limit = 5, snippet_length = 2\<rparr>"
  have h: "(0::int) \<le> snippet_length ?p" by simp
  have hc: "(0::int) \<le> snippet_length ?c" by simp
  from snippet_extraction [OF h, of failing_backend notes_dataset
      "''some words target phrase here''"]
  have "\<forall>q\<in>set (snd (SearchNotesTool_invoke failing_backend notes_dataset ?p)).
      select_snippet q ''some words target phrase here''
        = (if row_matches (lower ''TARGET'') ''some words target phrase here''
           then Some (spec_snippet ''TARGET'' 10 ''some words target phrase here'') else None)"
    by simp
  then have one: "select_snippet (SearchNotesSql ''discharge'' ''TARGET'' 5 10 ''target'' 5)
      ''some words target phrase here'' = Some ''ords targe''"
    by (simp add: snippet_example2(1) snippet_example)
  from snippet_extraction [OF hc, of failing_backend notes_dataset
      "[CHR ''a'', CHR '' '', CHR ''C'', CHR ''A'', CHR ''F'', CHR 0xC9]"]
  have "\<forall>q\<in>set (snd (SearchNotesTool_invoke failing_backend notes_dataset ?c)).
      select_snippet q [CHR ''a'', CHR '' '', CHR ''C'', CHR ''A'', CHR ''F'', CHR 0xC9]
        = (if row_matches (lower [CHR ''c'', CHR ''a'', CHR ''f'', CHR 0xE9])
                [CHR ''a'', CHR '' '', CHR ''C'', CHR ''A'', CHR ''F'', CHR 0xC9]
           then Some (spec_snippet [CHR ''c'', CHR ''a'', CHR ''f'', CHR 0xE9] 2
                [CHR ''a'', CHR '' '', CHR ''C'', CHR ''A'', CHR ''F'', CHR 0xC9]) else None)"
    by simp
  then have two: "select_snippet
       (SearchNotesSql ''discharge'' [CHR ''c'', CHR ''a'', CHR ''f'', CHR 0xE9] 1 2
          [CHR ''c'', CHR ''a'', CHR ''f'', CHR 0xE9] 5)
       [CHR ''a'', CHR '' '', CHR ''C'', CHR ''A'', CHR ''F'', CHR 0xC9]
     = Some '' C''"
    by (simp add: snippet_example2(2,3,4))
  from one two show ?thesis by simp
qed

text \<open>
  The claim as it is worded, for every call, fails at a negative snippet length: the row
  is matched and a snippet is selected, and no string has a length of at most \<open>- 4\<close>.
\<close>

theorem negative_snippet_length_counterexample:
  "snd (SearchNotesTool_invoke failing_backend notes_dataset
      \<lparr>query = ''TARGET'', note_type = ''discharge'', limit = 5, snippet_length = - 4\<rparr>)
     = [SearchNotesSql ''discharge'' ''TARGET'' (- 2) (- 4) ''target'' 5]
   \<and> select_snippet (SearchNotesSql ''discharge'' ''TARGET'' (- 2) (- 4) ''target'' 5)
        ''some words target phrase here'' = Some []
   \<and> \<not> int (length ([] :: string)) \<le> - 4"
  by code_simp

subsection \<open>Search: failures of a table\<close>

lemma search_notes_table_Raises:
  "execute_query be (search_notes_sql p search_term t) ds = Raises e \<Longrightarrow>
     search_notes_table be ds p search_term t = [NL @ ''**'' @ upper t @ '':** Error - '' @ e]"
  by (simp add: search_notes_table_def)


lemma search_notes_table_rows:
  "execute_query be (search_notes_sql p search_term t) ds = Returns r \<Longrightarrow> success r \<Longrightarrow>
     data r = Some d \<Longrightarrow> d \<noteq> [] \<Longrightarrow>
     search_notes_table be ds p search_term t = [NL @ ''**'' @ upper t @ '':**'' @ NL @ d]"
  by (simp add: search_notes_table_def truthy_def)

text \<open>
  A query that raises is annotated: the text of the exception is recorded for its table,
  every selected table is still queried, and the answer is the aggregated search output.
\<close>

lemma raised_failure_annotated:
  assumes "t \<in> set (SearchNotesTool_get_tables_for_type (note_type p))"
    and "execute_query be (search_notes_sql p (replace_quote (query p)) t) ds = Raises e"
  shows "search_notes_table be ds p (replace_quote (query p)) t
           = [NL @ ''**'' @ upper t @ '':** Error - '' @ e]
         \<and> SearchNotesTool_invoke be ds p
           = (\<lparr>result = search_output (get_backend_info be ds) p
                 (concat (map (search_notes_table be ds p (replace_quote (query p)))
                    (SearchNotesTool_get_tables_for_type (note_type p))))\<rparr>,
              map (search_notes_sql p (replace_quote (query p)))
                (SearchNotesTool_get_tables_for_type (note_type p)))
         \<and> (\<forall>r d. lower (note_type p) = ''all'' \<and> t = ''radiology''
               \<and> execute_query be (search_notes_sql p (replace_quote (query p)) ''discharge'') ds
                   = Returns r
               \<and> success r \<and> data r = Some d \<and> d \<noteq> [] \<longrightarrow>
               result (fst (SearchNotesTool_invoke be ds p))
                 = search_output (get_backend_info be ds) p
                     [NL @ ''**DISCHARGE:**'' @ NL @ d, NL @ ''**RADIOLOGY:** Error - '' @ e])"
proof -
  let ?st = "replace_quote (query p)"
  let ?tables = "SearchNotesTool_get_tables_for_type (note_type p)"
  have a: "search_notes_table be ds p ?st t = [NL @ ''**'' @ upper t @ '':** Error - '' @ e]"
    using assms(2) by (rule search_notes_table_Raises)
  from assms(1) have ne: "?tables \<noteq> []" by auto
  from assms(1) a have "\<exists>x\<in>set ?tables. search_notes_table be ds p ?st x \<noteq> []"
    by force
  then have res: "concat (map (search_notes_table be ds p ?st) ?tables) \<noteq> []"
    by simp
  have b: "SearchNotesTool_invoke be ds p
           = (\<lparr>result = search_output (get_backend_info be ds) p
                 (concat (map (search_notes_table be ds p ?st) ?tables))\<rparr>,
              map (search_notes_sql p ?st) ?tables)"
    using ne res by (auto simp: SearchNotesTool_invoke_eq Let_def)
  have c: "result (fst (SearchNotesTool_invoke be ds p))
                 = search_output (get_backend_info be ds) p
                     [NL @ ''**DISCHARGE:**'' @ NL @ d, NL @ ''**RADIOLOGY:** Error - '' @ e]"
    if "lower (note_type p) = ''all''" "t = ''radiology''"
      "execute_query be (search_notes_sql p ?st ''discharge'') ds = Returns r"
      "success r" "data r = Some d" "d \<noteq> []" for r d
  proof -
    from that(1) have tabs: "?tables = [''discharge'', ''radiology'']"
      by (simp add: SearchNotesTool_get_tables_for_type_def)
    have dis: "search_notes_table be ds p ?st ''discharge''
        = [NL @ ''**'' @ upper ''discharge'' @ '':**'' @ NL @ d]"
      using that(3-6) by (rule search_notes_table_rows)
    show ?thesis
      using a that(2) dis by (simp add: b tabs upper_tables)
  qed
  from a b c show ?thesis by blast
qed

text \<open>
  Claim C4. When the query against one table fails, the error of that table is to be
  recorded in the answer beside the results of the other tables. The \<^verbatim>\<open>except\<close> branch
  does so for a raised failure. For a failure that the backend returns, a result with
  \<^verbatim>\<open>success = False\<close>, it is not done: with the selector "all", a radiology query that
  returns such a result and a discharge query that returns rows, the answer holds the
  discharge rows only, with no word of radiology or of an error.
\<close>

theorem returned_failure_not_annotated:
  "execute_query discharge_only_backend
       (search_notes_sql
          \<lparr>query = ''sepsis'', note_type = ''all'', limit = 5, snippet_length = 300\<rparr>
          (replace_quote ''sepsis'') ''radiology'') notes_dataset
     = Returns \<lparr>success = False, data = None\<rparr>
   \<and> result (fst (SearchNotesTool_invoke discharge_only_backend notes_dataset
        \<lparr>query = ''sepsis'', note_type = ''all'', limit = 5, snippet_length = 300\<rparr>))
      = search_output ''Backend: demo''
          \<lparr>query = ''sepsis'', note_type = ''all'', limit = 5, snippet_length = 300\<rparr>
          [NL @ ''**DISCHARGE:**'' @ NL @ ''note_id 10000032-DS-21'']
   \<and> \<not> str_contains ''RADIOLOGY''
        (result (fst (SearchNotesTool_invoke discharge_only_backend notes_dataset
           \<lparr>query = ''sepsis'', note_type = ''all'', limit = 5, snippet_length = 300\<rparr>)))
   \<and> \<not> str_contains ''Error''
        (result (fst (SearchNotesTool_invoke discharge_only_backend notes_dataset
           \<lparr>query = ''sepsis'', note_type = ''all'', limit = 5, snippet_length = 300\<rparr>)))"
  by code_simp




subsection \<open>Retrieval of one note\<close>

lemma found_output_truncated:
  "max_length p = Some m \<Longrightarrow> 0 < m \<Longrightarrow> m < int (length d) \<Longrightarrow>
     found_output info p d = note_truncated info m (take (nat m) d)"
  by (simp add: found_output_def slice_to_def)

lemma found_output_full:
  "max_length p = None \<or> (\<exists>m. max_length p = Some m \<and> int (length d) \<le> m) \<Longrightarrow>
     found_output info p d = info @ NL @ d"
  by (auto simp: found_output_def)

text \<open>
  With \<open>d\<close> the payload of the first table whose answer is taken for the note: a positive
  \<^verbatim>\<open>max_length\<close> below the length of \<open>d\<close> gives the truncation message around exactly the
  first \<^verbatim>\<open>max_length\<close> characters of \<open>d\<close>; an absent \<^verbatim>\<open>max_length\<close>, or one of at least the
  length of \<open>d\<close>, gives \<open>d\<close> in full.
\<close>

lemma positive_max_length_truncates:
  assumes "(yields_note (execute_query be (GetNoteSql ''discharge'' (replace_quote (note_id p))) ds)
            \<and> d = payload (execute_query be (GetNoteSql ''discharge'' (replace_quote (note_id p))) ds))
         \<or> (\<not> yields_note (execute_query be (GetNoteSql ''discharge'' (replace_quote (note_id p))) ds)
            \<and> yields_note (execute_query be (GetNoteSql ''radiology'' (replace_quote (note_id p))) ds)
            \<and> d = payload (execute_query be (GetNoteSql ''radiology'' (replace_quote (note_id p))) ds))"
  shows "(\<forall>m. max_length p = Some m \<and> 0 < m \<and> m < int (length d) \<longrightarrow>
            result (fst (GetNoteTool_invoke be ds p))
              = note_truncated (get_backend_info be ds) m (take (nat m) d)
            \<and> int (length (take (nat m) d)) = m)
         \<and> (max_length p = None \<or> (\<exists>m. max_length p = Some m \<and> int (length d) \<le> m) \<longrightarrow>
            result (fst (GetNoteTool_invoke be ds p)) = get_backend_info be ds @ NL @ d)"
proof -
  from assms have r: "result (fst (GetNoteTool_invoke be ds p))
      = found_output (get_backend_info be ds) p d"
    by (auto simp: GetNoteTool_invoke_eq Let_def)
  have a: "result (fst (GetNoteTool_invoke be ds p))
              = note_truncated (get_backend_info be ds) m (take (nat m) d)
            \<and> int (length (take (nat m) d)) = m"
    if "max_length p = Some m" "0 < m" "m < int (length d)" for m
    using that by (simp add: r found_output_truncated)
  have b: "result (fst (GetNoteTool_invoke be ds p)) = get_backend_info be ds @ NL @ d"
    if "max_length p = None \<or> (\<exists>m. max_length p = Some m \<and> int (length d) \<le> m)"
    using that by (simp only: r found_output_full)
  from a b show ?thesis by blast
qed

lemma get_note_example:
  "yields_note (execute_query radiology_only_backend (GetNoteSql ''discharge'' nid) notes_dataset)
     = False"
  "yields_note (execute_query radiology_only_backend (GetNoteSql ''radiology'' nid) notes_dataset)
     = True"
  "payload (execute_query radiology_only_backend (GetNoteSql ''radiology'' nid) notes_dataset)
     = ''note_id 10000032-RR-14 CHEST PA AND LAT''"
  "get_backend_info radiology_only_backend notes_dataset = ''Backend: demo''"
  "execute_query radiology_only_backend (GetNoteSql ''discharge'' nid) notes_dataset
     = Returns \<lparr>success = True, data = Some ''No results found''\<rparr>"
  "note_found \<lparr>success = True, data = Some ''No results found''\<rparr> = False"
  by (simp_all add: radiology_only_backend_def table_backend_def rows_def) code_simp+

text \<open>
  Claim C5. When \<^verbatim>\<open>max_length\<close> is supplied and the note is longer, the note is to be cut
  to exactly \<^verbatim>\<open>max_length\<close> characters and the answer marked as truncated. At
  \<^verbatim>\<open>max_length = 0\<close> this is not done: line 202 tests the truth value of \<^verbatim>\<open>max_length\<close>,
  which is false for 0 as it is for \<^verbatim>\<open>None\<close>, so the note comes back in full and nothing
  marks a truncation.
\<close>

theorem zero_max_length_not_truncated:
  "max_length \<lparr>note_id = ''10000032-RR-14'', max_length = Some 0\<rparr> = Some 0
   \<and> (0::int) < int (length ''note_id 10000032-RR-14 CHEST PA AND LAT'')
   \<and> result (fst (GetNoteTool_invoke radiology_only_backend notes_dataset
        \<lparr>note_id = ''10000032-RR-14'', max_length = Some 0\<rparr>))
      = ''Backend: demo'' @ NL @ ''note_id 10000032-RR-14 CHEST PA AND LAT''
   \<and> \<not> str_contains ''truncated''
        (result (fst (GetNoteTool_invoke radiology_only_backend notes_dataset
           \<lparr>note_id = ''10000032-RR-14'', max_length = Some 0\<rparr>)))"
  by code_simp

lemma note_not_found_references:
  "str_contains ''list_patient_notes'' (note_not_found info nid)"
  "str_contains ''search_notes'' (note_not_found info nid)"
proof -
  have "note_not_found info nid
      = (info @ NL @ ''**Error:** Note '' @ [QUOTE] @ nid @ [QUOTE] @ '' not found. Use `'')
        @ ''list_patient_notes'' @ ''(subject_id)` or `search_notes(query)` to find valid note IDs.''"
    by (simp add: note_not_found_def)
  then show "str_contains ''list_patient_notes'' (note_not_found info nid)"
    unfolding str_contains_iff by blast
  have "note_not_found info nid
      = (info @ NL @ ''**Error:** Note '' @ [QUOTE] @ nid @ [QUOTE]
          @ '' not found. Use `list_patient_notes(subject_id)` or `'')
        @ ''search_notes'' @ ''(query)` to find valid note IDs.''"
    by (simp add: note_not_found_def)
  then show "str_contains ''search_notes'' (note_not_found info nid)"
    unfolding str_contains_iff by blast
qed

text \<open>
  Claim C6. \<^verbatim>\<open>get_note\<close> queries discharge first. If that answer is taken for the note,
  it is returned and radiology is not queried. Otherwise, also when the discharge query
  raised, radiology is queried next, and its note is returned if it has one. If neither
  table has the note, the answer is the not-found message, which names
  \<^verbatim>\<open>list_patient_notes\<close> and \<^verbatim>\<open>search_notes\<close>.
\<close>

theorem get_note_table_order:
  "(let info = get_backend_info be ds;
        q1 = GetNoteSql ''discharge'' (replace_quote (note_id p));
        q2 = GetNoteSql ''radiology'' (replace_quote (note_id p));
        o1 = execute_query be q1 ds;
        o2 = execute_query be q2 ds
    in (yields_note o1 \<longrightarrow>
          GetNoteTool_invoke be ds p = (\<lparr>result = found_output info p (payload o1)\<rparr>, [q1]))
     \<and> (\<not> yields_note o1 \<longrightarrow> snd (GetNoteTool_invoke be ds p) = [q1, q2])
     \<and> (\<forall>e. o1 = Raises e \<longrightarrow>
          GetNoteTool_invoke be ds p
            = (\<lparr>result = (if yields_note o2 then found_output info p (payload o2)
                          else note_not_found info (note_id p))\<rparr>, [q1, q2]))
     \<and> (\<not> yields_note o1 \<and> yields_note o2 \<longrightarrow>
          GetNoteTool_invoke be ds p = (\<lparr>result = found_output info p (payload o2)\<rparr>, [q1, q2]))
     \<and> (\<not> yields_note o1 \<and> \<not> yields_note o2 \<longrightarrow>
          GetNoteTool_invoke be ds p = (\<lparr>result = note_not_found info (note_id p)\<rparr>, [q1, q2]))
     \<and> str_contains ''list_patient_notes'' (note_not_found info (note_id p))
     \<and> str_contains ''search_notes'' (note_not_found info (note_id p)))"
proof -
  define info where "info = get_backend_info be ds"
  define q1 where "q1 = GetNoteSql ''discharge'' (replace_quote (note_id p))"
  define q2 where "q2 = GetNoteSql ''radiology'' (replace_quote (note_id p))"
  define o1 where "o1 = execute_query be q1 ds"
  define o2 where "o2 = execute_query be q2 ds"
  have inv: "GetNoteTool_invoke be ds p =
      (if yields_note o1 then (\<lparr>result = found_output info p (payload o1)\<rparr>, [q1])
       else if yields_note o2 then (\<lparr>result = found_output info p (payload o2)\<rparr>, [q1, q2])
       else (\<lparr>result = note_not_found info (note_id p)\<rparr>, [q1, q2]))"
    by (simp add: GetNoteTool_invoke_eq Let_def info_def q1_def q2_def o1_def o2_def)
  have first: "yields_note o1 \<longrightarrow>
      GetNoteTool_invoke be ds p = (\<lparr>result = found_output info p (payload o1)\<rparr>, [q1])"
    by (simp add: inv)
  have next_tried: "\<not> yields_note o1 \<longrightarrow> snd (GetNoteTool_invoke be ds p) = [q1, q2]"
    by (simp add: inv)
  have raised: "\<forall>e. o1 = Raises e \<longrightarrow>
      GetNoteTool_invoke be ds p
        = (\<lparr>result = (if yields_note o2 then found_output info p (payload o2)
                      else note_not_found info (note_id p))\<rparr>, [q1, q2])"
    by (simp add: inv)
  have second: "\<not> yields_note o1 \<and> yields_note o2 \<longrightarrow>
      GetNoteTool_invoke be ds p = (\<lparr>result = found_output info p (payload o2)\<rparr>, [q1, q2])"
    by (simp add: inv)
  have none: "\<not> yields_note o1 \<and> \<not> yields_note o2 \<longrightarrow>
      GetNoteTool_invoke be ds p = (\<lparr>result = note_not_found info (note_id p)\<rparr>, [q1, q2])"
    by (simp add: inv)
  from first next_tried raised second none note_not_found_references [of info "note_id p"]
  show ?thesis
    unfolding Let_def info_def [symmetric] q1_def [symmetric] q2_def [symmetric]
      o1_def [symmetric] o2_def [symmetric]
    by blast
qed

lemma get_note_order_example:
  "execute_query discharge_down_backend (GetNoteSql ''discharge'' nid) notes_dataset
     = Raises ''connection lost''"
  "yields_note (execute_query discharge_down_backend (GetNoteSql ''radiology'' nid) notes_dataset)
     = True"
  "payload (execute_query discharge_down_backend (GetNoteSql ''radiology'' nid) notes_dataset)
     = ''note_id 10000032-RR-14 CHEST PA AND LAT''"
  "get_backend_info discharge_down_backend notes_dataset = ''Backend: demo''"
  by (simp_all add: discharge_down_backend_def table_backend_def rows_def) code_simp+

theorem get_note_table_order_witness:
  "GetNoteTool_invoke discharge_down_backend notes_dataset
      \<lparr>note_id = ''10000032-RR-14'', max_length = None\<rparr>
   = (\<lparr>result = ''Backend: demo'' @ NL @ ''note_id 10000032-RR-14 CHEST PA AND LAT''\<rparr>,
      [GetNoteSql ''discharge'' ''10000032-RR-14'', GetNoteSql ''radiology'' ''10000032-RR-14''])
   \<and> GetNoteTool_invoke failing_backend notes_dataset
      \<lparr>note_id = ''nonexistent-id'', max_length = None\<rparr>
   = (\<lparr>result = note_not_found ''Backend: demo'' ''nonexistent-id''\<rparr>,
      [GetNoteSql ''discharge'' ''nonexistent-id'', GetNoteSql ''radiology'' ''nonexistent-id''])"
  using get_note_table_order [of discharge_down_backend notes_dataset
      "\<lparr>note_id = ''10000032-RR-14'', max_length = None\<rparr>"]
    get_note_table_order [of failing_backend notes_dataset
      "\<lparr>note_id = ''nonexistent-id'', max_length = None\<rparr>"]
  by (simp add: Let_def get_note_order_example found_output_def failing_backend_def
      table_backend_def failure_def note_found_def)

text \<open>
  Claim C10. An answer of the backend is taken for the note exactly when it is a returned
  result that succeeded, has a payload that is not empty, and whose payload holds
  \<^verbatim>\<open>note_id\<close> when put in lower case. A successful discharge result with a payload without
  that word is passed over: radiology is queried, and the answer is its note or else the
  not-found message.
\<close>

theorem get_note_found_test:
  "(yields_note out \<longleftrightarrow>
      (\<exists>r d. out = Returns r \<and> success r \<and> data r = Some d \<and> d \<noteq> []
         \<and> (\<exists>a b. lower d = a @ ''note_id'' @ b)))
   \<and> (\<forall>r d. execute_query be (GetNoteSql ''discharge'' (replace_quote (note_id p))) ds = Returns r
          \<and> success r \<and> data r = Some d \<and> d \<noteq> [] \<and> \<not> str_contains ''note_id'' (lower d) \<longrightarrow>
        GetNoteTool_invoke be ds p
          = (\<lparr>result =
                (if yields_note
                      (execute_query be (GetNoteSql ''radiology'' (replace_quote (note_id p))) ds)
                 then found_output (get_backend_info be ds) p
                        (payload
                           (execute_query be
                              (GetNoteSql ''radiology'' (replace_quote (note_id p))) ds))
                 else note_not_found (get_backend_info be ds) (note_id p))\<rparr>,
             [GetNoteSql ''discharge'' (replace_quote (note_id p)),
              GetNoteSql ''radiology'' (replace_quote (note_id p))]))"
proof -
  have a: "yields_note out \<longleftrightarrow>
      (\<exists>r d. out = Returns r \<and> success r \<and> data r = Some d \<and> d \<noteq> []
         \<and> (\<exists>a b. lower d = a @ ''note_id'' @ b))"
    by (cases out) (auto simp: note_found_def truthy_def str_contains_iff split: option.splits)
  have b: "GetNoteTool_invoke be ds p
          = (\<lparr>result =
                (if yields_note
                      (execute_query be (GetNoteSql ''radiology'' (replace_quote (note_id p))) ds)
                 then found_output (get_backend_info be ds) p
                        (payload
                           (execute_query be
                              (GetNoteSql ''radiology'' (replace_quote (note_id p))) ds))
                 else note_not_found (get_backend_info be ds) (note_id p))\<rparr>,
             [GetNoteSql ''discharge'' (replace_quote (note_id p)),
              GetNoteSql ''radiology'' (replace_quote (note_id p))])"
    if "execute_query be (GetNoteSql ''discharge'' (replace_quote (note_id p))) ds = Returns r"
      "success r" "data r = Some d" "d \<noteq> []" "\<not> str_contains ''note_id'' (lower d)" for r d
    using that by (simp add: GetNoteTool_invoke_eq Let_def note_found_def)
  from a b show ?thesis by blast
qed

lemma no_results_found_example:
  "\<not> str_contains ''note_id'' (lower ''No results found'')"
  by code_simp

theorem get_note_found_test_witness:
  "GetNoteTool_invoke radiology_only_backend notes_dataset
      \<lparr>note_id = ''10000032-RR-14'', max_length = None\<rparr>
   = (\<lparr>result = ''Backend: demo'' @ NL @ ''note_id 10000032-RR-14 CHEST PA AND LAT''\<rparr>,
      [GetNoteSql ''discharge'' ''10000032-RR-14'', GetNoteSql ''radiology'' ''10000032-RR-14''])"
  using get_note_found_test [of "Raises []" radiology_only_backend
      "\<lparr>note_id = ''10000032-RR-14'', max_length = None\<rparr>" notes_dataset]
  by (simp add: get_note_example found_output_def no_results_found_example)

subsection \<open>Listing the notes of a patient\<close>








end
